theory Spec2Isabelle
  imports Complex_Main "HOL-Library.Word"
begin

section \<open>Strings and numbers of the source language\<close>

text \<open>
  A JavaScript string is a sequence of UTF-16 code units: \<open>s.length\<close> counts code
  units and \<open>s.includes('-')\<close> looks for the code unit \<open>0x2D\<close>. Literals of the source
  that are plain ASCII are written with \<open>js\<close>.
\<close>

type_synonym jsstring = "16 word list"

definition js :: "string \<Rightarrow> jsstring" where
  "js s = map of_char s"

text \<open>The code units \<open>'\n'\<close> and \<open>'-'\<close>.\<close>

definition newline :: "16 word" where
  "newline = 0x0A"

definition hyphen :: "16 word" where
  "hyphen = 0x2D"

text \<open>
  \<open>String.prototype.trim\<close> removes white space and line terminators from both ends:
  U+0009 .. U+000D, U+0020, U+00A0, U+1680, U+2000 .. U+200A, U+2028, U+2029, U+202F,
  U+205F, U+3000 and U+FEFF.
\<close>

definition isWhiteSpace :: "16 word \<Rightarrow> bool" where
  "isWhiteSpace c \<longleftrightarrow>
     c \<in> set [0x09, 0x0A, 0x0B, 0x0C, 0x0D, 0x20, 0xA0, 0x1680,
               0x2000, 0x2001, 0x2002, 0x2003, 0x2004, 0x2005, 0x2006, 0x2007,
               0x2008, 0x2009, 0x200A, 0x2028, 0x2029, 0x202F, 0x205F, 0x3000, 0xFEFF]"

definition trim :: "jsstring \<Rightarrow> jsstring" where
  "trim s = rev (dropWhile isWhiteSpace (rev (dropWhile isWhiteSpace s)))"

text \<open>A string is truthy when it is not empty; \<open>undefined\<close> is falsy.\<close>

definition truthy :: "jsstring \<Rightarrow> bool" where
  "truthy s \<longleftrightarrow> s \<noteq> []"

fun truthyOpt :: "jsstring option \<Rightarrow> bool" where
  "truthyOpt None = False"
| "truthyOpt (Some s) = truthy s"

text \<open>\<open>x || d\<close> for an optional string \<open>x\<close> and a string literal \<open>d\<close>.\<close>

fun orElse :: "jsstring option \<Rightarrow> jsstring \<Rightarrow> jsstring" where
  "orElse None d = d"
| "orElse (Some s) d = (if truthy s then s else d)"

text \<open>\<open>s.split(sep)\<close> for a one-unit separator: never empty, \<open>"".split(sep)\<close> is \<open>[""]\<close>.\<close>

fun split :: "16 word \<Rightarrow> jsstring \<Rightarrow> jsstring list" where
  "split sep [] = [[]]"
| "split sep (c # cs) =
     (if c = sep then [] # split sep cs
      else (case split sep cs of
              [] \<Rightarrow> [[c]]
            | piece # pieces \<Rightarrow> (c # piece) # pieces))"

text \<open>\<open>xs.join(sep)\<close>.\<close>

fun join :: "jsstring \<Rightarrow> jsstring list \<Rightarrow> jsstring" where
  "join sep [] = []"
| "join sep [x] = x"
| "join sep (x # y # ys) = x @ sep @ join sep (y # ys)"

text \<open>
  An array length or an exit code in a template literal prints as a decimal integer.
\<close>

fun showNat :: "nat \<Rightarrow> jsstring" where
  "showNat n =
     (if n < 10 then [of_nat (48 + n)]
      else showNat (n div 10) @ [of_nat (48 + n mod 10)])"

declare showNat.simps [simp del]

definition showInt :: "int \<Rightarrow> jsstring" where
  "showInt i = (if i < 0 then hyphen # showNat (nat (- i)) else showNat (nat i))"

text \<open>
  A JavaScript number that a caller passes (\<open>maxLines\<close>, which the schema takes as any
  \<open>z.number()\<close>) is a double; the model has its value, a rational, so that a fraction
  such as \<open>0.5\<close> is an input. \<open>NaN\<close> and the two infinities are not in the model.

  \<open>ToIntegerOrInfinity\<close>, which \<open>slice\<close> applies to its argument, drops the fraction,
  towards zero.
\<close>

definition toIntegerOrInfinity :: "rat \<Rightarrow> int" where
  "toIntegerOrInfinity x = (if x < 0 then - \<lfloor>- x\<rfloor> else \<lfloor>x\<rfloor>)"

text \<open>
  A number in a template literal: an integer below \<open>10^21\<close> in magnitude prints as its
  decimal digits. What the runtime prints for any other number (the shortest decimal
  that reads back as the double, or the exponent form) is the parameter \<open>toString\<close>.
\<close>

definition numberText :: "(rat \<Rightarrow> jsstring) \<Rightarrow> rat \<Rightarrow> jsstring" where
  "numberText toString x =
     (if x = of_int \<lfloor>x\<rfloor> \<and> \<bar>x\<bar> < 10 ^ 21 then showInt \<lfloor>x\<rfloor> else toString x)"

text \<open>
  \<open>xs.slice(start)\<close>: the start is made an integer, a negative one counts from the end,
  and both ends are clamped to the array.
\<close>

definition sliceFrom :: "rat \<Rightarrow> 'a list \<Rightarrow> 'a list" where
  "sliceFrom start xs =
     (let len = int (length xs);
          relativeStart = toIntegerOrInfinity start;
          k = (if relativeStart < 0 then max (len + relativeStart) 0 else min relativeStart len)
      in drop (nat k) xs)"

section \<open>The line buffer\<close>

text \<open>
  The body of the loop in both \<open>stdout\<close> handlers (\<open>startAndroidLogs\<close> and
  \<open>startIosLogs\<close>): a fragment that is not blank is pushed, and when the buffer then
  holds more than 10000 lines the oldest one is shifted out.
\<close>

definition capacity :: nat where
  "capacity = 10000"

definition shift :: "'a list \<Rightarrow> 'a list" where
  "shift xs = (case xs of [] \<Rightarrow> [] | _ # rest \<Rightarrow> rest)"

definition pushLine :: "jsstring list \<Rightarrow> jsstring \<Rightarrow> jsstring list" where
  "pushLine buf line =
     (if truthy (trim line) then
        (let pushed = buf @ [line]
         in if length pushed > capacity then shift pushed else pushed)
      else buf)"

text \<open>
  The handler itself: \<open>data.toString().split('\n')\<close>, then the loop over the
  fragments. The Android handler also sets a flag \<open>hasData\<close>, which only decides a
  warning on the console.
\<close>

definition stdoutData :: "jsstring list \<Rightarrow> jsstring \<Rightarrow> jsstring list" where
  "stdoutData buf chunk = foldl pushLine buf (split newline chunk)"

text \<open>A chunk that is one whole line: not blank, and with no line break in it.\<close>

definition wholeLine :: "jsstring \<Rightarrow> bool" where
  "wholeLine l \<longleftrightarrow> truthy (trim l) \<and> newline \<notin> set l"

section \<open>Sessions and the registry\<close>

datatype platform = Android | Ios

text \<open>
  \<open>interface LogSession\<close>. The process handle is the number the environment gives the
  spawned child; the buffer is the array the session owns.
\<close>

record LogSession =
  sessionId :: jsstring
  serverUrl :: jsstring
  platform :: platform
  deviceId :: "jsstring option"
  logProcess :: "nat option"
  logBuffer :: "jsstring list"
  isStreaming :: bool

text \<open>
  \<open>activeSessions\<close> is a JavaScript \<open>Map\<close>: it iterates in insertion order, \<open>set\<close> on
  a key it holds replaces the value in place, and \<open>set\<close> on a new key appends.
\<close>

type_synonym registry = "(jsstring \<times> LogSession) list"

definition mapGet :: "('k \<times> 'v) list \<Rightarrow> 'k \<Rightarrow> 'v option" where
  "mapGet m k = map_of m k"

fun mapSet :: "'k \<Rightarrow> 'v \<Rightarrow> ('k \<times> 'v) list \<Rightarrow> ('k \<times> 'v) list" where
  "mapSet k v [] = [(k, v)]"
| "mapSet k v (p # ps) = (if fst p = k then (k, v) # ps else p # mapSet k v ps)"

definition mapDelete :: "'k \<Rightarrow> ('k \<times> 'v) list \<Rightarrow> ('k \<times> 'v) list" where
  "mapDelete k m = filter (\<lambda>p. fst p \<noteq> k) m"

definition mapKeys :: "('k \<times> 'v) list \<Rightarrow> 'k list" where
  "mapKeys m = map fst m"

definition mapValues :: "('k \<times> 'v) list \<Rightarrow> 'v list" where
  "mapValues m = map snd m"

definition mapSize :: "('k \<times> 'v) list \<Rightarrow> nat" where
  "mapSize m = length m"

text \<open>
  What a tool call does: the value it returns (the text of its one content block) or
  the \<open>Error\<close> it throws, the registry it leaves, and the processes it spawned.
\<close>

datatype error = Error jsstring

datatype spawn_request = Spawn jsstring "jsstring list" bool

record outcome =
  result :: "error + jsstring"
  sessions :: registry
  spawned :: "spawn_request list"

text \<open>\<open>x ? f(x) : g\<close> for an optional string \<open>x\<close>.\<close>

fun ifTruthy :: "jsstring option \<Rightarrow> (jsstring \<Rightarrow> 'a) \<Rightarrow> 'a \<Rightarrow> 'a" where
  "ifTruthy None f g = g"
| "ifTruthy (Some s) f g = (if truthy s then f s else g)"

definition statusText :: "LogSession \<Rightarrow> jsstring" where
  "statusText session = (if isStreaming session then js ''Streaming'' else js ''Stopped'')"

section \<open>start-log-broadcast.ts\<close>

text \<open>
  What the environment does during one call of the start tool. \<open>deps.axios.get\<close>
  throws, or answers, and then \<open>data?.value?.capabilities?.['appium:udid']\<close> is a
  string or \<open>undefined\<close>. \<open>deps.spawn\<close> returns the handle of a child. While the
  call waits its 1000 ms the child emits events, which the handlers of the call receive
  in order; after the wait the call reads \<open>logProcess.exitCode\<close>, which is \<open>null\<close>
  for a child that runs (and for one that a signal ended). Other tool calls running
  during the two waits of the call are outside the model.
\<close>

datatype axios_outcome = AxiosThrows | AxiosData "jsstring option"

datatype process_event =
    StdoutData jsstring
  | StderrData jsstring
  | ProcessError jsstring
  | ProcessClose "int option"

record start_env =
  axiosGet :: axios_outcome
  childProcess :: nat
  settleEvents :: "process_event list"
  exitCode :: "int option"

text \<open>
  The \<open>error\<close> and \<open>close\<close> handlers: the session the registry holds for the id, if
  any, stops streaming and stays in the registry.
\<close>

definition markStopped :: "jsstring \<Rightarrow> registry \<Rightarrow> registry" where
  "markStopped sid reg =
     (case mapGet reg sid of
        None \<Rightarrow> reg
      | Some session \<Rightarrow> mapSet sid (session\<lparr>isStreaming := False\<rparr>) reg)"

fun handleEvent ::
  "jsstring \<Rightarrow> jsstring list \<times> registry \<Rightarrow> process_event \<Rightarrow> jsstring list \<times> registry" where
  "handleEvent sid (buf, reg) (StdoutData chunk) = (stdoutData buf chunk, reg)"
| "handleEvent sid (buf, reg) (StderrData chunk) = (buf, reg)"
| "handleEvent sid (buf, reg) (ProcessError message) = (buf, markStopped sid reg)"
| "handleEvent sid (buf, reg) (ProcessClose code) = (buf, markStopped sid reg)"

definition settle ::
  "jsstring \<Rightarrow> process_event list \<Rightarrow> jsstring list \<times> registry \<Rightarrow> jsstring list \<times> registry" where
  "settle sid events state = foldl (handleEvent sid) state events"

text \<open>The two emoji of the result texts, U+2705 and U+1F4A1 (a surrogate pair).\<close>

definition checkMark :: jsstring where
  "checkMark = [0x2705]"

definition lightBulb :: jsstring where
  "lightBulb = [0xD83D, 0xDCA1]"

definition captureHint :: jsstring where
  "captureHint =
     js ''\<newline>\<newline>Logs are being captured in real-time. Use 'get_logs' to retrieve them.\<newline>\<newline>'' @
     lightBulb @
     js '' Tip: Wait a few seconds for logs to buffer, then call get_logs to see them.''"

subsection \<open>startAndroidLogs\<close>

definition adbCmd :: "jsstring option \<Rightarrow> jsstring" where
  "adbCmd device =
     ifTruthy device
       (\<lambda>d. js ''adb -s '' @ d @ js '' logcat -v time'')
       (js ''adb logcat -v time'')"

definition androidFailureText :: "int \<Rightarrow> jsstring" where
  "androidFailureText code =
     js ''Failed to start adb logcat (exit code: '' @ showInt code @
     js ''). Make sure adb is installed and device is connected. Try running 'adb devices' to verify.''"

definition androidStartedText :: "jsstring \<Rightarrow> jsstring option \<Rightarrow> jsstring" where
  "androidStartedText sid device =
     checkMark @ js '' Started Android log streaming for session '' @ sid @
     js ''\<newline>Device: '' @ orElse device (js ''default device'') @
     js ''\<newline>Command: '' @ adbCmd device @
     captureHint"

definition startAndroidLogs ::
  "jsstring \<Rightarrow> jsstring \<Rightarrow> jsstring option \<Rightarrow> jsstring list \<Rightarrow> start_env \<Rightarrow> registry \<Rightarrow> outcome" where
  "startAndroidLogs sid url device buf env reg =
     (let request = Spawn (adbCmd device) [] True;
          (buf', reg') = settle sid (settleEvents env) (buf, reg)
      in case exitCode env of
           Some code \<Rightarrow>
             \<lparr>result = Inl (Error (androidFailureText code)), sessions = reg', spawned = [request]\<rparr>
         | None \<Rightarrow>
             \<lparr>result = Inr (androidStartedText sid device),
              sessions = mapSet sid
                \<lparr>sessionId = sid, serverUrl = url, platform = Android, deviceId = device,
                 logProcess = Some (childProcess env), logBuffer = buf', isStreaming = True\<rparr> reg',
              spawned = [request]\<rparr>)"

subsection \<open>startIosLogs\<close>

text \<open>\<open>deviceId && (deviceId.includes('-') || deviceId.length > 25)\<close>, as a condition.\<close>

definition isSimulator :: "jsstring option \<Rightarrow> bool" where
  "isSimulator device = ifTruthy device (\<lambda>d. hyphen \<in> set d \<or> length d > 25) False"

definition iosCommand :: "jsstring option \<Rightarrow> jsstring" where
  "iosCommand device =
     (if isSimulator device then
        ifTruthy device
          (\<lambda>d. js ''xcrun simctl spawn '' @ d @ js '' log stream --level debug'')
          (js ''xcrun simctl spawn booted log stream --level debug'')
      else
        ifTruthy device (\<lambda>d. js ''idevicesyslog -u '' @ d) (js ''idevicesyslog''))"

definition iosSpawn :: "jsstring option \<Rightarrow> spawn_request" where
  "iosSpawn device =
     (if isSimulator device then
        Spawn (js ''xcrun'')
          (ifTruthy device
             (\<lambda>d. [js ''simctl'', js ''spawn'', d, js ''log'', js ''stream'', js ''--level'', js ''debug''])
             [js ''simctl'', js ''spawn'', js ''booted'', js ''log'', js ''stream'', js ''--level'',
              js ''debug''])
          False
      else
        Spawn (js ''idevicesyslog'') (ifTruthy device (\<lambda>d. [js ''-u'', d]) []) False)"

definition iosToolName :: "jsstring option \<Rightarrow> jsstring" where
  "iosToolName device =
     (if isSimulator device then js ''iOS Simulator (simctl)''
      else js ''iOS Device (idevicesyslog)'')"

definition iosFailureText :: "jsstring option \<Rightarrow> jsstring" where
  "iosFailureText device =
     (if isSimulator device then
        js ''Failed to start iOS simulator logs. Make sure Xcode is installed and simulator is running.''
      else
        js ''Failed to start iOS device logs. Make sure 'idevicesyslog' is installed (brew install libimobiledevice) and device is connected.'')"

definition iosStartedText :: "jsstring \<Rightarrow> jsstring option \<Rightarrow> jsstring" where
  "iosStartedText sid device =
     checkMark @ js '' Started iOS log streaming for session '' @ sid @
     js ''\<newline>Device: '' @ orElse device (js ''default device'') @
     js ''\<newline>Type: '' @ iosToolName device @
     js ''\<newline>Command: '' @ iosCommand device @
     captureHint"

definition startIosLogs ::
  "jsstring \<Rightarrow> jsstring \<Rightarrow> jsstring option \<Rightarrow> jsstring list \<Rightarrow> start_env \<Rightarrow> registry \<Rightarrow> outcome" where
  "startIosLogs sid url device buf env reg =
     (let request = iosSpawn device;
          (buf', reg') = settle sid (settleEvents env) (buf, reg)
      in case exitCode env of
           Some code \<Rightarrow>
             \<lparr>result = Inl (Error (iosFailureText device)), sessions = reg', spawned = [request]\<rparr>
         | None \<Rightarrow>
             \<lparr>result = Inr (iosStartedText sid device),
              sessions = mapSet sid
                \<lparr>sessionId = sid, serverUrl = url, platform = Ios, deviceId = device,
                 logProcess = Some (childProcess env), logBuffer = buf', isStreaming = True\<rparr> reg',
              spawned = [request]\<rparr>)"

subsection \<open>executeStartLogBroadcast\<close>

definition alreadyActiveText :: "jsstring \<Rightarrow> LogSession \<Rightarrow> jsstring" where
  "alreadyActiveText sid session =
     js ''Log streaming is already active for session '' @ sid @
     js ''\<newline>Device: '' @ orElse (deviceId session) (js ''default'')"

text \<open>
  The device the launcher gets: the one provided when it is truthy; otherwise what the
  lookup assigned, and the provided value when the lookup threw.
\<close>

definition resolveDevice :: "jsstring option \<Rightarrow> axios_outcome \<Rightarrow> jsstring option" where
  "resolveDevice providedDeviceId response =
     (if \<not> truthyOpt providedDeviceId then
        (case response of
           AxiosThrows \<Rightarrow> providedDeviceId
         | AxiosData udid \<Rightarrow> udid)
      else providedDeviceId)"

definition launch ::
  "jsstring \<Rightarrow> platform \<Rightarrow> jsstring \<Rightarrow> jsstring option \<Rightarrow> start_env \<Rightarrow> registry \<Rightarrow> outcome" where
  "launch sid plat url providedDeviceId env reg =
     (let device = resolveDevice providedDeviceId (axiosGet env);
          buf = []
      in case plat of
           Android \<Rightarrow> startAndroidLogs sid url device buf env reg
         | Ios \<Rightarrow> startIosLogs sid url device buf env reg)"

text \<open>
  The guard at the head of \<open>executeStartLogBroadcast\<close>: the session the registry holds
  for the id, when it has one and that one streams.
\<close>

definition streamingSession :: "registry \<Rightarrow> jsstring \<Rightarrow> LogSession option" where
  "streamingSession reg sid =
     (case mapGet reg sid of
        None \<Rightarrow> None
      | Some session \<Rightarrow> if isStreaming session then Some session else None)"

definition executeStartLogBroadcast ::
  "jsstring \<Rightarrow> platform \<Rightarrow> jsstring option \<Rightarrow> jsstring option \<Rightarrow> start_env \<Rightarrow> registry
     \<Rightarrow> outcome" where
  "executeStartLogBroadcast sid plat serverUrlArg providedDeviceId env reg =
     (let url = orElse serverUrlArg (js ''http://localhost:4723'')
      in case streamingSession reg sid of
           Some session \<Rightarrow>
             \<lparr>result = Inr (alreadyActiveText sid session), sessions = reg, spawned = []\<rparr>
         | None \<Rightarrow> launch sid plat url providedDeviceId env reg)"

section \<open>list-log-sessions.ts\<close>

fun platformText :: "platform \<Rightarrow> jsstring" where
  "platformText Android = js ''android''"
| "platformText Ios = js ''ios''"

definition sessionEntry :: "LogSession \<Rightarrow> jsstring" where
  "sessionEntry session =
     js ''- Session: '' @ sessionId session @
     js ''\<newline>  Platform: '' @ platformText (platform session) @
     js ''\<newline>  Device: '' @ orElse (deviceId session) (js ''default'') @
     js ''\<newline>  Server: '' @ serverUrl session @
     js ''\<newline>  Status: '' @ statusText session @
     js ''\<newline>  Logs buffered: '' @ showNat (length (logBuffer session))"

definition executeListLogSessions :: "registry \<Rightarrow> outcome" where
  "executeListLogSessions reg =
     (if mapSize reg = 0 then
        \<lparr>result = Inr (js ''No active log streaming sessions.''), sessions = reg, spawned = []\<rparr>
      else
        (let sessionList = join (js ''\<newline>\<newline>'') (map sessionEntry (mapValues reg))
         in \<lparr>result = Inr (js ''Active Log Sessions ('' @ showNat (mapSize reg) @
                  js ''):\<newline>\<newline>'' @ sessionList),
              sessions = reg, spawned = []\<rparr>))"

section \<open>get-logs.ts\<close>

fun platformUpper :: "platform \<Rightarrow> jsstring" where
  "platformUpper Android = js ''ANDROID''"
| "platformUpper Ios = js ''IOS''"

definition getNotFoundText :: "jsstring \<Rightarrow> jsstring" where
  "getNotFoundText sid =
     js ''No active log session found for '' @ sid @
     js ''. Use 'start_log_broadcast' first.''"

definition truncationText :: "(rat \<Rightarrow> jsstring) \<Rightarrow> nat \<Rightarrow> rat \<Rightarrow> jsstring" where
  "truncationText toString totalCount maxLines =
     js ''\<newline>(Showing '' @ numberText toString maxLines @ js '' of '' @ showNat totalCount @
     js '' total lines. Increase maxLines to see more.)''"

definition getLogsReport :: "jsstring \<Rightarrow> LogSession \<Rightarrow> jsstring list \<Rightarrow> nat \<Rightarrow> jsstring" where
  "getLogsReport sid session logs totalCount =
     js ''=== '' @ platformUpper (platform session) @ js '' Logs for Session '' @ sid @
     js '' ===\<newline>Status: '' @ statusText session @
     js ''\<newline>Device: '' @ orElse (deviceId session) (js ''default'') @
     js ''\<newline>Total logs captured: '' @ showNat totalCount @
     js ''\<newline>Showing last '' @ showNat (length logs) @ js '' lines:\<newline>\<newline>'' @
     join [newline] logs @
     js ''\<newline>\<newline>''"

definition getLogsText ::
  "(rat \<Rightarrow> jsstring) \<Rightarrow> jsstring \<Rightarrow> LogSession \<Rightarrow> jsstring list \<Rightarrow> nat \<Rightarrow> rat \<Rightarrow> jsstring" where
  "getLogsText toString sid session logs totalCount maxLines =
     getLogsReport sid session logs totalCount @
     (if of_nat totalCount > maxLines then truncationText toString totalCount maxLines else [])"

text \<open>
  \<open>args.maxLines || 100\<close>: a missing \<open>maxLines\<close> and the falsy \<open>0\<close> both give 100. Any
  other number stays as it is, a fraction or a negative one too.
\<close>

definition effectiveMaxLines :: "rat option \<Rightarrow> rat" where
  "effectiveMaxLines maxLinesArg =
     (case maxLinesArg of None \<Rightarrow> 100 | Some n \<Rightarrow> if n = 0 then 100 else n)"

definition executeGetLogs ::
  "(rat \<Rightarrow> jsstring) \<Rightarrow> jsstring \<Rightarrow> rat option \<Rightarrow> registry \<Rightarrow> outcome" where
  "executeGetLogs toString sid maxLinesArg reg =
     (let maxLines = effectiveMaxLines maxLinesArg
      in case mapGet reg sid of
           None \<Rightarrow> \<lparr>result = Inr (getNotFoundText sid), sessions = reg, spawned = []\<rparr>
         | Some session \<Rightarrow>
             (let logs = sliceFrom (- maxLines) (logBuffer session);
                  totalCount = length (logBuffer session)
              in \<lparr>result = Inr (getLogsText toString sid session logs totalCount maxLines),
                   sessions = reg, spawned = []\<rparr>))"

section \<open>clear-log-buffer.ts\<close>

definition notFoundText :: "jsstring \<Rightarrow> jsstring" where
  "notFoundText sid = js ''No active log session found for '' @ sid"

definition clearedText :: "nat \<Rightarrow> jsstring \<Rightarrow> jsstring" where
  "clearedText clearedCount sid =
     js ''Cleared '' @ showNat clearedCount @ js '' log lines from buffer for session '' @ sid @
     js ''. Log streaming continues.''"

text \<open>\<open>session.logBuffer.length = 0\<close> empties the array of the stored session.\<close>

definition executeClearLogBuffer :: "jsstring \<Rightarrow> registry \<Rightarrow> outcome" where
  "executeClearLogBuffer sid reg =
     (case mapGet reg sid of
        None \<Rightarrow> \<lparr>result = Inr (notFoundText sid), sessions = reg, spawned = []\<rparr>
      | Some session \<Rightarrow>
          (let clearedCount = length (logBuffer session)
           in \<lparr>result = Inr (clearedText clearedCount sid),
                sessions = mapSet sid (session\<lparr>logBuffer := []\<rparr>) reg,
                spawned = []\<rparr>))"

section \<open>stop-log-broadcast.ts\<close>

text \<open>
  What \<open>logProcess.kill('SIGTERM')\<close> can do: deliver the signal and return \<open>true\<close>,
  return \<open>false\<close> without delivering it (the process is gone, or the system refused and
  an \<open>error\<close> event was emitted), or throw.
\<close>

datatype kill_outcome = Delivered | NotDelivered | Throws jsstring

definition stoppedText :: "jsstring \<Rightarrow> LogSession \<Rightarrow> nat \<Rightarrow> jsstring" where
  "stoppedText sid session logCount =
     checkMark @ js '' Stopped log streaming for session '' @ sid @
     js ''\<newline>Device: '' @ orElse (deviceId session) (js ''default'') @
     js ''\<newline>Total logs captured: '' @ showNat logCount @ js '' lines''"

definition executeStopLogBroadcast ::
  "jsstring \<Rightarrow> (nat \<Rightarrow> kill_outcome) \<Rightarrow> registry \<Rightarrow> outcome" where
  "executeStopLogBroadcast sid kill reg =
     (case mapGet reg sid of
        None \<Rightarrow> \<lparr>result = Inr (notFoundText sid), sessions = reg, spawned = []\<rparr>
      | Some session \<Rightarrow>
          (let logCount = length (logBuffer session);
               stopped = \<lparr>result = Inr (stoppedText sid session logCount),
                          sessions = mapDelete sid reg, spawned = []\<rparr>
           in case logProcess session of
                None \<Rightarrow> stopped
              | Some p \<Rightarrow>
                  (case kill p of
                     Delivered \<Rightarrow> stopped
                   | NotDelivered \<Rightarrow> stopped
                   | Throws message \<Rightarrow>
                       \<lparr>result = Inl (Error (js ''Error stopping log streaming: '' @ message)),
                        sessions = mapDelete sid reg, spawned = []\<rparr>)))"

section \<open>Example inputs\<close>

text \<open>
  The session of the specification's examples: \<open>s1\<close>, Android, streaming, no device id,
  with the given buffer.
\<close>

definition exampleSession :: "jsstring list \<Rightarrow> LogSession" where
  "exampleSession buf =
     \<lparr>sessionId = js ''s1'', serverUrl = js ''http://localhost:4723'', platform = Android,
      deviceId = None, logProcess = Some 1, logBuffer = buf, isStreaming = True\<rparr>"

text \<open>
  An environment for a start call where the lookup of the device throws and the child
  emits the given events and has the given exit code after the wait.
\<close>

definition exampleEnv :: "process_event list \<Rightarrow> int option \<Rightarrow> start_env" where
  "exampleEnv events code =
     \<lparr>axiosGet = AxiosThrows, childProcess = 1, settleEvents = events, exitCode = code\<rparr>"

text \<open>Three environments for \<open>kill\<close>: the signal is delivered, is not, or the call throws.\<close>

definition killDelivered :: "nat \<Rightarrow> kill_outcome" where
  "killDelivered p = Delivered"

definition killNotDelivered :: "nat \<Rightarrow> kill_outcome" where
  "killNotDelivered p = NotDelivered"

definition killThrows :: "nat \<Rightarrow> kill_outcome" where
  "killThrows p = Throws (js ''kill EINVAL'')"

text \<open>What the runtime prints for the two fractions of the examples, \<open>0.5\<close> and \<open>2.5\<close>.\<close>

definition exampleToString :: "rat \<Rightarrow> jsstring" where
  "exampleToString x = (if x = 1 / 2 then js ''0.5'' else if x = 5 / 2 then js ''2.5'' else [])"

section \<open>Lemmas about strings, the registry and the wait\<close>

lemma showNat_digit: "n < 10 \<Longrightarrow> showNat n = [of_nat (48 + n)]"
  by (simp add: showNat.simps)

lemma sliceFrom_tail:
  "0 < n \<Longrightarrow> sliceFrom (- of_int n) xs = drop (length xs - nat n) xs"
proof -
  assume n: "0 < n"
  then have "toIntegerOrInfinity (- of_int n) = - n"
    by (simp add: toIntegerOrInfinity_def)
  with n show ?thesis
    by (auto simp: sliceFrom_def Let_def max_def nat_diff_distrib'
        intro: arg_cong [where f = "\<lambda>k. drop k xs"])
qed

lemma sliceFrom_hundred: "sliceFrom (- 100) xs = drop (length xs - 100) xs"
  using sliceFrom_tail [of 100 xs] by simp

lemma numberText_small:
  "\<bar>n\<bar> < 10 ^ 21 \<Longrightarrow> numberText toString (of_int n) = showInt n"
proof -
  assume "\<bar>n\<bar> < 10 ^ 21"
  then have "\<bar>of_int n :: rat\<bar> < 10 ^ 21"
    by (metis of_int_abs of_int_less_iff of_int_numeral of_int_power)
  then show ?thesis
    by (simp add: numberText_def)
qed

lemma mapGet_mapSet_same: "mapGet (mapSet k v m) k = Some v"
  by (induction m) (auto simp: mapGet_def)

lemma mapGet_mapSet_other: "k' \<noteq> k \<Longrightarrow> mapGet (mapSet k v m) k' = mapGet m k'"
  by (induction m) (auto simp: mapGet_def)

lemma mapGet_Some_key: "mapGet m k = Some v \<Longrightarrow> k \<in> set (mapKeys m)"
  by (auto simp: mapGet_def mapKeys_def dest: map_of_SomeD intro: rev_image_eqI)

lemma mapKeys_mapSet: "k \<in> set (mapKeys m) \<Longrightarrow> mapKeys (mapSet k v m) = mapKeys m"
  by (induction m) (auto simp: mapKeys_def)

lemma mapSet_same_value: "mapGet m k = Some v \<Longrightarrow> mapSet k v m = m"
  by (induction m) (auto simp: mapGet_def split: if_splits)

lemma mapGet_mapDelete_same: "mapGet (mapDelete k m) k = None"
  by (induction m) (auto simp: mapGet_def mapDelete_def)

lemma mapGet_mapDelete_other: "k' \<noteq> k \<Longrightarrow> mapGet (mapDelete k m) k' = mapGet m k'"
  by (induction m) (auto simp: mapGet_def mapDelete_def)

lemma mapKeys_mapDelete: "mapKeys (mapDelete k m) = removeAll k (mapKeys m)"
  by (induction m) (auto simp: mapKeys_def mapDelete_def)

lemma markStopped_idle:
  "streamingSession reg sid = None \<Longrightarrow> markStopped sid reg = reg"
proof (cases "mapGet reg sid")
  case None
  then show ?thesis by (simp add: markStopped_def)
next
  case (Some session)
  assume "streamingSession reg sid = None"
  with Some have "session\<lparr>isStreaming := False\<rparr> = session"
    by (simp add: streamingSession_def split: if_splits)
  with Some show ?thesis
    by (simp add: markStopped_def mapSet_same_value)
qed

lemma handleEvent_idle:
  "streamingSession reg sid = None \<Longrightarrow>
   snd (handleEvent sid (buf, reg) event) = reg"
  by (cases event) (simp_all add: markStopped_idle)

lemma settle_idle:
  "streamingSession reg sid = None \<Longrightarrow>
   snd (settle sid events (buf, reg)) = reg"
proof (induction events arbitrary: buf)
  case Nil
  then show ?case by (simp add: settle_def)
next
  case (Cons event events)
  obtain buf' where step: "handleEvent sid (buf, reg) event = (buf', reg)"
    using handleEvent_idle [OF Cons.prems, of buf event]
    by (cases "handleEvent sid (buf, reg) event") simp
  from Cons.IH [OF Cons.prems, of buf'] show ?case
    by (simp add: settle_def step)
qed

lemma spawned_startIosLogs:
  "spawned (startIosLogs sid url device buf env reg) = [iosSpawn device]"
  by (simp add: startIosLogs_def Let_def split: prod.splits option.splits)

lemma spawned_startAndroidLogs:
  "spawned (startAndroidLogs sid url device buf env reg) = [Spawn (adbCmd device) [] True]"
  by (simp add: startAndroidLogs_def Let_def split: prod.splits option.splits)

lemma spawned_executeStartLogBroadcast:
  "spawned (executeStartLogBroadcast sid plat serverUrlArg providedDeviceId env reg) =
     (case streamingSession reg sid of
        Some session \<Rightarrow> []
      | None \<Rightarrow>
          [case plat of
             Android \<Rightarrow> Spawn (adbCmd (resolveDevice providedDeviceId (axiosGet env))) [] True
           | Ios \<Rightarrow> iosSpawn (resolveDevice providedDeviceId (axiosGet env))])"
  by (cases "streamingSession reg sid"; cases plat)
    (simp_all add: executeStartLogBroadcast_def launch_def spawned_startIosLogs
      spawned_startAndroidLogs)

lemma iosSpawn_falsy: "\<not> truthyOpt device \<Longrightarrow> iosSpawn device = Spawn (js ''idevicesyslog'') [] False"
  by (cases device) (simp_all add: iosSpawn_def isSimulator_def)

lemma iosSpawn_not_booted:
  "iosSpawn device \<noteq>
     Spawn (js ''xcrun'')
       [js ''simctl'', js ''spawn'', js ''booted'', js ''log'', js ''stream'', js ''--level'',
        js ''debug''] False"
proof (cases "isSimulator device")
  case True
  then obtain d where d: "device = Some d" "truthy d" "hyphen \<in> set d \<or> length d > 25"
    by (cases device) (auto simp: isSimulator_def split: if_splits)
  have "\<not> (hyphen \<in> set (js ''booted'') \<or> length (js ''booted'') > 25)"
    by (simp add: js_def hyphen_def)
  with d have "d \<noteq> js ''booted''"
    by auto
  with d True show ?thesis
    by (simp add: iosSpawn_def)
next
  case False
  then show ?thesis
    by (simp add: iosSpawn_def js_def)
qed

lemma iosCommand_not_booted:
  "iosCommand device \<noteq> js ''xcrun simctl spawn booted log stream --level debug''"
proof (cases "isSimulator device")
  case True
  then obtain d where d: "device = Some d" "truthy d" "hyphen \<in> set d \<or> length d > 25"
    by (cases device) (auto simp: isSimulator_def split: if_splits)
  have "\<not> (hyphen \<in> set (js ''booted'') \<or> length (js ''booted'') > 25)"
    by (simp add: js_def hyphen_def)
  with d have differ: "d \<noteq> js ''booted''"
    by auto
  have "js ''xcrun simctl spawn booted log stream --level debug'' =
      js ''xcrun simctl spawn '' @ js ''booted'' @ js '' log stream --level debug''"
    by (simp add: js_def)
  with d True differ show ?thesis
    by (simp add: iosCommand_def)
next
  case False
  then show ?thesis
    by (cases device) (simp_all add: iosCommand_def js_def)
qed

section \<open>The line buffer is bounded and first-in first-out\<close>

lemma length_pushLine:
  "length b \<le> capacity \<Longrightarrow> length (pushLine b l) \<le> capacity"
  by (cases b) (auto simp: pushLine_def shift_def Let_def)

lemma length_foldl_pushLine:
  "length b \<le> capacity \<Longrightarrow> length (foldl pushLine b ls) \<le> capacity"
  by (induction ls arbitrary: b) (simp_all add: length_pushLine)

lemma length_stdoutData:
  "length b \<le> capacity \<Longrightarrow> length (stdoutData b chunk) \<le> capacity"
  by (simp add: stdoutData_def length_foldl_pushLine)

lemma length_foldl_stdoutData:
  "length b \<le> capacity \<Longrightarrow> length (foldl stdoutData b chunks) \<le> capacity"
  by (induction chunks arbitrary: b) (simp_all add: length_stdoutData)

lemma split_no_sep: "sep \<notin> set s \<Longrightarrow> split sep s = [s]"
  by (induction s) auto

lemma stdoutData_wholeLine:
  "wholeLine l \<Longrightarrow> stdoutData b l = pushLine b l"
  by (simp add: stdoutData_def wholeLine_def split_no_sep)

lemma pushLine_wholeLine:
  assumes "wholeLine l" and "length b \<le> capacity"
  shows "pushLine b l = drop (length (b @ [l]) - capacity) (b @ [l])"
proof (cases "length b < capacity")
  case True
  with assms show ?thesis by (simp add: pushLine_def wholeLine_def Let_def)
next
  case False
  with assms have len: "length b = capacity" by simp
  then obtain x rest where b: "b = x # rest"
    by (cases b) (auto simp: capacity_def)
  with len assms show ?thesis
    by (simp add: pushLine_def wholeLine_def Let_def shift_def)
qed

lemma drop_window:
  "drop (length (drop (length xs - c) xs @ ys) - c) (drop (length xs - c) xs @ ys) =
   drop (length (xs @ ys) - c) (xs @ ys)"
proof -
  let ?k = "length xs - c"
  have "drop ?k xs @ ys = drop ?k (xs @ ys)"
    by simp
  moreover have "length (drop ?k (xs @ ys)) - c + ?k = length (xs @ ys) - c"
    by simp
  ultimately show ?thesis
    by (simp only: drop_drop)
qed

lemma foldl_stdoutData_fifo:
  assumes "\<forall>l \<in> set ls. wholeLine l" and "length b \<le> capacity"
  shows "foldl stdoutData b ls = drop (length (b @ ls) - capacity) (b @ ls)"
  using assms
proof (induction ls arbitrary: b)
  case Nil
  then show ?case by simp
next
  case (Cons l ls)
  let ?b = "stdoutData b l"
  from Cons.prems have l: "wholeLine l" by simp
  with Cons.prems have step: "?b = drop (length (b @ [l]) - capacity) (b @ [l])"
    by (simp add: stdoutData_wholeLine pushLine_wholeLine)
  from Cons.prems have bound: "length ?b \<le> capacity"
    by (simp add: length_stdoutData)
  from Cons.prems have "foldl stdoutData ?b ls = drop (length (?b @ ls) - capacity) (?b @ ls)"
    by (intro Cons.IH bound) simp
  also have "\<dots> = drop (length ((b @ [l]) @ ls) - capacity) ((b @ [l]) @ ls)"
    unfolding step by (rule drop_window)
  finally show ?case by simp
qed

lemma wholeLine_replicate:
  "\<not> isWhiteSpace c \<Longrightarrow> wholeLine (replicate (Suc n) c)"
proof -
  assume c: "\<not> isWhiteSpace c"
  then have "c \<noteq> newline"
    by (auto simp: isWhiteSpace_def newline_def)
  moreover from c have "dropWhile isWhiteSpace (replicate (Suc n) c) = replicate (Suc n) c"
    by simp
  ultimately show ?thesis
    using c by (simp add: wholeLine_def trim_def truthy_def)
qed

text \<open>
  Claim C1. A buffer that holds at most 10000 lines holds at most 10000 lines after the
  \<open>stdout\<close> handler has processed a chunk, whatever the chunk; so a session's buffer,
  which starts empty, never holds more than 10000 lines after any sequence of chunks.
  When the chunks are whole lines (not blank, no line break), pushed one at a time into
  the empty buffer, the buffer is the last 10000 of them in the order they were pushed:
  after 10050 lines it is exactly the lines 51 to 10050, the 50 oldest having been
  shifted out.
\<close>

theorem buffer_bounded_fifo:
  assumes "length buf \<le> 10000"
      and "\<forall>l \<in> set ls. wholeLine l"
  shows "length (stdoutData buf chunk) \<le> 10000
       \<and> length (foldl stdoutData [] chunks) \<le> 10000
       \<and> foldl stdoutData [] ls = drop (length ls - 10000) ls
       \<and> (length ls = 10050 \<longrightarrow>
            foldl stdoutData [] ls = drop 50 ls \<and> length (foldl stdoutData [] ls) = 10000)"
proof -
  from assms(1) have step: "length (stdoutData buf chunk) \<le> 10000"
    using length_stdoutData [of buf chunk] by (simp add: capacity_def)
  have run: "length (foldl stdoutData [] chunks) \<le> 10000"
    using length_foldl_stdoutData [of "[]" chunks] by (simp add: capacity_def)
  have fifo: "foldl stdoutData [] ls = drop (length ls - 10000) ls"
    using foldl_stdoutData_fifo [OF assms(2), of "[]"] by (simp add: capacity_def)
  from step run fifo show ?thesis by simp
qed

theorem buffer_bounded_fifo_witness:
  "length (stdoutData [js ''old''] (js ''a\<newline>  \<newline>b'')) \<le> 10000
   \<and> stdoutData [js ''old''] (js ''a\<newline>  \<newline>b'') = [js ''old'', js ''a'', js ''b'']
   \<and> length (map (\<lambda>i. replicate (Suc i) (0x78 :: 16 word)) [0..<10050]) = 10050
   \<and> foldl stdoutData [] (map (\<lambda>i. replicate (Suc i) 0x78) [0..<10050]) =
       drop 50 (map (\<lambda>i. replicate (Suc i) 0x78) [0..<10050])
   \<and> length (foldl stdoutData [] (map (\<lambda>i. replicate (Suc i) 0x78) [0..<10050])) = 10000"
proof -
  let ?ls = "map (\<lambda>i. replicate (Suc i) (0x78 :: 16 word)) [0..<10050]"
  have x: "\<not> isWhiteSpace (0x78 :: 16 word)"
    by (simp add: isWhiteSpace_def)
  have lines: "\<forall>l \<in> set ?ls. wholeLine l"
    using wholeLine_replicate [OF x] by simp
  have old: "length [js ''old''] \<le> 10000"
    by simp
  have len: "length ?ls = 10050"
    by simp
  have run: "stdoutData [js ''old''] (js ''a\<newline>  \<newline>b'') = [js ''old'', js ''a'', js ''b'']"
    by (simp add: stdoutData_def js_def newline_def pushLine_def trim_def truthy_def
        isWhiteSpace_def capacity_def)
  from buffer_bounded_fifo [OF old lines, of "js ''a\<newline>  \<newline>b''" "[]"] len run
  show ?thesis by blast
qed

section \<open>Starting a capture\<close>

text \<open>
  Claim C2. A start call that gets past the guard (the registry holds no streaming
  session for the id) spawns one child; when it finds \<open>exitCode\<close> set after the wait
  it throws an \<open>Error\<close>: for Android the \<open>adb\<close> text with the exit code, for iOS the
  simulator text or the \<open>idevicesyslog\<close> text, by the classification of the device.
  The registry after the call is the registry before it, whatever events the child
  emitted during the wait: nothing is registered.
\<close>

theorem failed_start_registers_nothing:
  assumes "exitCode env = Some code"
      and "streamingSession reg sid = None"
  shows "result (executeStartLogBroadcast sid plat serverUrlArg providedDeviceId env reg) =
           Inl (Error (case plat of
                         Android \<Rightarrow> androidFailureText code
                       | Ios \<Rightarrow> iosFailureText (resolveDevice providedDeviceId (axiosGet env))))
       \<and> sessions (executeStartLogBroadcast sid plat serverUrlArg providedDeviceId env reg) = reg
       \<and> length (spawned (executeStartLogBroadcast sid plat serverUrlArg providedDeviceId env reg)) = 1"
proof -
  let ?url = "orElse serverUrlArg (js ''http://localhost:4723'')"
  obtain buf' where settled: "settle sid (settleEvents env) ([], reg) = (buf', reg)"
    using settle_idle [OF assms(2), of "settleEvents env" "[]"]
    by (cases "settle sid (settleEvents env) ([], reg)") simp
  have launched: "executeStartLogBroadcast sid plat serverUrlArg providedDeviceId env reg =
      launch sid plat ?url providedDeviceId env reg"
    using assms(2) by (simp add: executeStartLogBroadcast_def)
  show ?thesis
    unfolding launched
    by (cases plat)
      (simp_all add: launch_def startAndroidLogs_def startIosLogs_def settled assms(1) Let_def)
qed

theorem failed_start_registers_nothing_witness:
  "exitCode (exampleEnv [ProcessClose (Some 1)] (Some 1)) = Some 1
   \<and> streamingSession [] (js ''s1'') = None
   \<and> result (executeStartLogBroadcast (js ''s1'') Android None None
        (exampleEnv [ProcessClose (Some 1)] (Some 1)) []) =
       Inl (Error (js ''Failed to start adb logcat (exit code: 1). Make sure adb is installed and device is connected. Try running 'adb devices' to verify.''))
   \<and> sessions (executeStartLogBroadcast (js ''s1'') Android None None
        (exampleEnv [ProcessClose (Some 1)] (Some 1)) []) = []
   \<and> streamingSession [(js ''s1'', (exampleSession [js ''a''])\<lparr>isStreaming := False\<rparr>)] (js ''s1'') =
       None
   \<and> result (executeStartLogBroadcast (js ''s1'') Ios None (Some (js ''a1b2c3d4e5f6''))
        (exampleEnv [ProcessClose (Some 1)] (Some 1))
        [(js ''s1'', (exampleSession [js ''a''])\<lparr>isStreaming := False\<rparr>)]) =
       Inl (Error (js ''Failed to start iOS device logs. Make sure 'idevicesyslog' is installed (brew install libimobiledevice) and device is connected.''))
   \<and> sessions (executeStartLogBroadcast (js ''s1'') Ios None (Some (js ''a1b2c3d4e5f6''))
        (exampleEnv [ProcessClose (Some 1)] (Some 1))
        [(js ''s1'', (exampleSession [js ''a''])\<lparr>isStreaming := False\<rparr>)]) =
       [(js ''s1'', (exampleSession [js ''a''])\<lparr>isStreaming := False\<rparr>)]"
proof -
  let ?stale = "[(js ''s1'', (exampleSession [js ''a''])\<lparr>isStreaming := False\<rparr>)]"
  have exited: "exitCode (exampleEnv [ProcessClose (Some 1)] (Some 1)) = Some 1"
    by (simp add: exampleEnv_def)
  have idle: "streamingSession [] (js ''s1'') = None"
    by (simp add: streamingSession_def mapGet_def)
  have stale: "streamingSession ?stale (js ''s1'') = None"
    by (simp add: streamingSession_def mapGet_def)
  have android: "androidFailureText 1 =
      js ''Failed to start adb logcat (exit code: 1). Make sure adb is installed and device is connected. Try running 'adb devices' to verify.''"
    by (simp add: androidFailureText_def showInt_def showNat_digit js_def)
  have ios: "iosFailureText (resolveDevice (Some (js ''a1b2c3d4e5f6''))
        (axiosGet (exampleEnv [ProcessClose (Some 1)] (Some 1)))) =
      js ''Failed to start iOS device logs. Make sure 'idevicesyslog' is installed (brew install libimobiledevice) and device is connected.''"
    by (simp add: iosFailureText_def resolveDevice_def isSimulator_def truthy_def js_def
        hyphen_def)
  show ?thesis
    using exited idle stale
      failed_start_registers_nothing [OF exited idle, of Android None None]
      failed_start_registers_nothing [OF exited stale, of Ios None "Some (js ''a1b2c3d4e5f6'')"]
    by (simp add: android ios)
qed

text \<open>
  Claim C3 as the specification states it fails: the call that starts the capture of
  \<open>s1\<close> returns the \<open>Started\<close> text, and the second call, made while the session
  streams, returns the \<open>already active\<close> text, which is another text.
\<close>

theorem second_start_text_differs:
  "map_option isStreaming
     (mapGet (sessions (executeStartLogBroadcast (js ''s1'') Android None None
        (exampleEnv [] None) [])) (js ''s1'')) = Some True
   \<and> result (executeStartLogBroadcast (js ''s1'') Android None None (exampleEnv [] None) []) =
       Inr (androidStartedText (js ''s1'') None)
   \<and> result (executeStartLogBroadcast (js ''s1'') Android None None (exampleEnv [] None)
        (sessions (executeStartLogBroadcast (js ''s1'') Android None None
           (exampleEnv [] None) []))) =
       Inr (js ''Log streaming is already active for session s1\<newline>Device: default'')
   \<and> result (executeStartLogBroadcast (js ''s1'') Android None None (exampleEnv [] None)
        (sessions (executeStartLogBroadcast (js ''s1'') Android None None
           (exampleEnv [] None) []))) \<noteq>
       result (executeStartLogBroadcast (js ''s1'') Android None None (exampleEnv [] None) [])"
proof -
  let ?first = "executeStartLogBroadcast (js ''s1'') Android None None (exampleEnv [] None) []"
  have first: "?first =
      \<lparr>result = Inr (androidStartedText (js ''s1'') None),
       sessions = [(js ''s1'',
         \<lparr>sessionId = js ''s1'', serverUrl = js ''http://localhost:4723'', platform = Android,
          deviceId = None, logProcess = Some 1, logBuffer = [], isStreaming = True\<rparr>)],
       spawned = [Spawn (js ''adb logcat -v time'') [] True]\<rparr>"
    by (simp add: executeStartLogBroadcast_def streamingSession_def launch_def
        startAndroidLogs_def settle_def resolveDevice_def exampleEnv_def mapGet_def adbCmd_def)
  have second: "result (executeStartLogBroadcast (js ''s1'') Android None None
      (exampleEnv [] None) (sessions ?first)) =
      Inr (js ''Log streaming is already active for session s1\<newline>Device: default'')"
    unfolding first
    by (simp add: executeStartLogBroadcast_def streamingSession_def mapGet_def
        alreadyActiveText_def js_def)
  have differ: "androidStartedText (js ''s1'') None \<noteq>
      js ''Log streaming is already active for session s1\<newline>Device: default''"
    by (simp add: androidStartedText_def checkMark_def js_def)
  from differ show ?thesis
    unfolding second unfolding first by (simp add: mapGet_def)
qed

text \<open>
  Claim C3, amended. When the registry holds a streaming session for the id, a start
  call spawns nothing, leaves the registry as it is and returns the text
  \<open>Log streaming is already active for session <id>\<close>, \<open>Device: <device or default>\<close>;
  a further start call for the id, with any arguments, has the same outcome. That text
  is never a \<open>Started\<close> text, of either platform.
\<close>

theorem duplicate_start_guard:
  assumes "mapGet reg sid = Some session" and "isStreaming session"
  shows "executeStartLogBroadcast sid plat serverUrlArg providedDeviceId env reg =
           \<lparr>result = Inr (alreadyActiveText sid session), sessions = reg, spawned = []\<rparr>
       \<and> executeStartLogBroadcast sid plat' serverUrlArg' providedDeviceId' env'
           (sessions (executeStartLogBroadcast sid plat serverUrlArg providedDeviceId env reg)) =
         executeStartLogBroadcast sid plat serverUrlArg providedDeviceId env reg
       \<and> alreadyActiveText sid session \<noteq> androidStartedText sid' device
       \<and> alreadyActiveText sid session \<noteq> iosStartedText sid' device"
proof -
  have guarded: "executeStartLogBroadcast sid plat serverUrlArg providedDeviceId env reg =
      \<lparr>result = Inr (alreadyActiveText sid session), sessions = reg, spawned = []\<rparr>"
    for plat serverUrlArg providedDeviceId env
    using assms by (simp add: executeStartLogBroadcast_def streamingSession_def)
  have android: "alreadyActiveText sid session \<noteq> androidStartedText sid' device"
    by (simp add: alreadyActiveText_def androidStartedText_def checkMark_def js_def)
  have ios: "alreadyActiveText sid session \<noteq> iosStartedText sid' device"
    by (simp add: alreadyActiveText_def iosStartedText_def checkMark_def js_def)
  from android ios show ?thesis
    by (simp add: guarded)
qed

theorem duplicate_start_guard_witness:
  "mapGet [(js ''s1'', exampleSession [js ''a''])] (js ''s1'') = Some (exampleSession [js ''a''])
   \<and> isStreaming (exampleSession [js ''a''])
   \<and> executeStartLogBroadcast (js ''s1'') Android None None (exampleEnv [] None)
        [(js ''s1'', exampleSession [js ''a''])] =
       \<lparr>result = Inr (js ''Log streaming is already active for session s1\<newline>Device: default''),
        sessions = [(js ''s1'', exampleSession [js ''a''])], spawned = []\<rparr>"
proof -
  have present: "mapGet [(js ''s1'', exampleSession [js ''a''])] (js ''s1'') =
      Some (exampleSession [js ''a''])"
    by (simp add: mapGet_def)
  have streaming: "isStreaming (exampleSession [js ''a''])"
    by (simp add: exampleSession_def)
  have shown: "alreadyActiveText (js ''s1'') (exampleSession [js ''a'']) =
      js ''Log streaming is already active for session s1\<newline>Device: default''"
    by (simp add: alreadyActiveText_def exampleSession_def js_def)
  show ?thesis
    using present streaming
      duplicate_start_guard [OF present streaming, of Android None None "exampleEnv [] None"]
    by (simp add: shown)
qed

section \<open>Stopping a capture\<close>

text \<open>
  Claim C4 as the specification states it fails where the signal is not delivered: when
  \<open>kill\<close> throws, the call throws an \<open>Error\<close> instead of returning a text, and when
  \<open>kill\<close> returns \<open>false\<close> the text is the one of a delivered signal, so it reports
  no failure.
\<close>

theorem stop_signal_failure_raises_or_is_silent:
  "mapGet [(js ''s1'', exampleSession [js ''a''])] (js ''s1'') = Some (exampleSession [js ''a''])
   \<and> result (executeStopLogBroadcast (js ''s1'') killThrows
        [(js ''s1'', exampleSession [js ''a''])]) =
       Inl (Error (js ''Error stopping log streaming: kill EINVAL''))
   \<and> result (executeStopLogBroadcast (js ''s1'') killNotDelivered
        [(js ''s1'', exampleSession [js ''a''])]) =
       result (executeStopLogBroadcast (js ''s1'') killDelivered
        [(js ''s1'', exampleSession [js ''a''])])"
  by (simp add: executeStopLogBroadcast_def mapGet_def exampleSession_def killThrows_def
      killNotDelivered_def killDelivered_def js_def)

text \<open>
  Claim C4, amended. Stopping a registered session always removes it from the registry
  (the other sessions stay as they are, so the listing no longer has it). When \<open>kill\<close>
  does not throw, or the session has no process, the call returns the \<open>Stopped\<close> text
  with the number of lines the buffer held before the removal; when \<open>kill\<close> throws, the
  session is removed all the same and the call throws
  \<open>Error stopping log streaming: <message>\<close>.
\<close>

theorem stop_removes_session:
  assumes "mapGet reg sid = Some session"
  shows "sessions (executeStopLogBroadcast sid kill reg) = mapDelete sid reg
       \<and> mapGet (sessions (executeStopLogBroadcast sid kill reg)) sid = None
       \<and> sid \<notin> set (mapKeys (sessions (executeStopLogBroadcast sid kill reg)))
       \<and> (\<forall>other. other \<noteq> sid \<longrightarrow>
             mapGet (sessions (executeStopLogBroadcast sid kill reg)) other = mapGet reg other)
       \<and> result (executeStopLogBroadcast sid kill reg) =
           (case logProcess session of
              None \<Rightarrow> Inr (stoppedText sid session (length (logBuffer session)))
            | Some p \<Rightarrow>
                (case kill p of
                   Throws message \<Rightarrow> Inl (Error (js ''Error stopping log streaming: '' @ message))
                 | _ \<Rightarrow> Inr (stoppedText sid session (length (logBuffer session)))))"
proof -
  have removed: "sessions (executeStopLogBroadcast sid kill reg) = mapDelete sid reg"
    using assms
    by (simp add: executeStopLogBroadcast_def Let_def split: option.splits kill_outcome.splits)
  have answer: "result (executeStopLogBroadcast sid kill reg) =
      (case logProcess session of
         None \<Rightarrow> Inr (stoppedText sid session (length (logBuffer session)))
       | Some p \<Rightarrow>
           (case kill p of
              Throws message \<Rightarrow> Inl (Error (js ''Error stopping log streaming: '' @ message))
            | _ \<Rightarrow> Inr (stoppedText sid session (length (logBuffer session)))))"
    using assms
    by (simp add: executeStopLogBroadcast_def Let_def split: option.splits kill_outcome.splits)
  show ?thesis
    unfolding removed answer
    by (simp add: mapGet_mapDelete_same mapGet_mapDelete_other mapKeys_mapDelete)
qed

theorem stop_removes_session_witness:
  "mapGet [(js ''s1'', exampleSession [js ''a'', js ''b'', js ''c''])] (js ''s1'') =
     Some (exampleSession [js ''a'', js ''b'', js ''c''])
   \<and> result (executeStopLogBroadcast (js ''s1'') killDelivered
        [(js ''s1'', exampleSession [js ''a'', js ''b'', js ''c''])]) =
       Inr (checkMark @
            js '' Stopped log streaming for session s1\<newline>Device: default\<newline>Total logs captured: 3 lines'')
   \<and> sessions (executeStopLogBroadcast (js ''s1'') killDelivered
        [(js ''s1'', exampleSession [js ''a'', js ''b'', js ''c''])]) = []
   \<and> result (executeListLogSessions (sessions (executeStopLogBroadcast (js ''s1'') killDelivered
        [(js ''s1'', exampleSession [js ''a'', js ''b'', js ''c''])]))) =
       Inr (js ''No active log streaming sessions.'')"
proof -
  have present: "mapGet [(js ''s1'', exampleSession [js ''a'', js ''b'', js ''c''])] (js ''s1'') =
      Some (exampleSession [js ''a'', js ''b'', js ''c''])"
    by (simp add: mapGet_def)
  show ?thesis
    using present stop_removes_session [OF present, of killDelivered]
    by (simp add: exampleSession_def killDelivered_def stoppedText_def mapDelete_def
        executeListLogSessions_def mapSize_def showNat_digit js_def truthy_def)
qed

section \<open>Reading and clearing the buffer\<close>

text \<open>
  Claim C5 as the specification states it fails at a positive \<open>maxLines\<close> that is not
  an integer. \<open>0.5\<close> is truthy, so it is not replaced by 100, and \<open>slice(-0.5)\<close> is
  \<open>slice(0)\<close>: with the buffer \<open>a, b, c\<close> the call shows all three lines, which is
  neither the last \<open>min 0.5 3\<close> lines nor at most \<open>maxLines\<close> lines. With \<open>2.5\<close> it
  shows two lines.
\<close>

theorem get_fraction_returns_whole_buffer:
  "mapGet [(js ''s1'', exampleSession [js ''a'', js ''b'', js ''c''])] (js ''s1'') =
     Some (exampleSession [js ''a'', js ''b'', js ''c''])
   \<and> (0 :: rat) < 1 / 2
   \<and> result (executeGetLogs exampleToString (js ''s1'') (Some (1 / 2))
        [(js ''s1'', exampleSession [js ''a'', js ''b'', js ''c''])]) =
       Inr (js ''=== ANDROID Logs for Session s1 ===\<newline>Status: Streaming\<newline>Device: default\<newline>Total logs captured: 3\<newline>Showing last 3 lines:\<newline>\<newline>a\<newline>b\<newline>c\<newline>\<newline>\<newline>(Showing 0.5 of 3 total lines. Increase maxLines to see more.)'')
   \<and> sliceFrom (- (1 / 2)) [js ''a'', js ''b'', js ''c''] = [js ''a'', js ''b'', js ''c'']
   \<and> (of_nat (length (sliceFrom (- (1 / 2)) [js ''a'', js ''b'', js ''c''])) :: rat) \<noteq>
       min (1 / 2) (of_nat (length [js ''a'', js ''b'', js ''c'']))
   \<and> sliceFrom (- (5 / 2)) [js ''a'', js ''b'', js ''c''] = [js ''b'', js ''c'']"
proof -
  have floor_half: "\<lfloor>1 / 2 :: rat\<rfloor> = 0"
    by (rule floor_unique) simp_all
  have floor_five_halves: "\<lfloor>5 / 2 :: rat\<rfloor> = 2"
    by (rule floor_unique) simp_all
  have half: "toIntegerOrInfinity (- (1 / 2)) = 0"
    by (simp add: toIntegerOrInfinity_def floor_half)
  have five_halves: "toIntegerOrInfinity (- (5 / 2)) = - 2"
    by (simp add: toIntegerOrInfinity_def floor_five_halves)
  have all_lines: "sliceFrom (- (1 / 2)) [js ''a'', js ''b'', js ''c''] =
      [js ''a'', js ''b'', js ''c'']"
    by (simp add: sliceFrom_def half)
  have two_lines: "sliceFrom (- (5 / 2)) [js ''a'', js ''b'', js ''c''] = [js ''b'', js ''c'']"
    by (simp add: sliceFrom_def five_halves)
  have printed: "numberText exampleToString (1 / 2) = js ''0.5''"
    by (simp add: numberText_def exampleToString_def floor_half)
  have shown: "result (executeGetLogs exampleToString (js ''s1'') (Some (1 / 2))
        [(js ''s1'', exampleSession [js ''a'', js ''b'', js ''c''])]) =
      Inr (js ''=== ANDROID Logs for Session s1 ===\<newline>Status: Streaming\<newline>Device: default\<newline>Total logs captured: 3\<newline>Showing last 3 lines:\<newline>\<newline>a\<newline>b\<newline>c\<newline>\<newline>\<newline>(Showing 0.5 of 3 total lines. Increase maxLines to see more.)'')"
  proof -
    have called: "result (executeGetLogs exampleToString (js ''s1'') (Some (1 / 2))
          [(js ''s1'', exampleSession [js ''a'', js ''b'', js ''c''])]) =
        Inr (getLogsText exampleToString (js ''s1'')
               (exampleSession [js ''a'', js ''b'', js ''c''])
               [js ''a'', js ''b'', js ''c''] 3 (1 / 2))"
      by (simp add: executeGetLogs_def effectiveMaxLines_def mapGet_def exampleSession_def
          all_lines numeral_3_eq_3)
    have printed_text: "getLogsText exampleToString (js ''s1'')
          (exampleSession [js ''a'', js ''b'', js ''c''])
          [js ''a'', js ''b'', js ''c''] 3 (1 / 2) =
        js ''=== ANDROID Logs for Session s1 ===\<newline>Status: Streaming\<newline>Device: default\<newline>Total logs captured: 3\<newline>Showing last 3 lines:\<newline>\<newline>a\<newline>b\<newline>c\<newline>\<newline>\<newline>(Showing 0.5 of 3 total lines. Increase maxLines to see more.)''"
      by (simp add: getLogsText_def getLogsReport_def truncationText_def printed statusText_def
          exampleSession_def showNat_digit newline_def js_def truthy_def)
    from called printed_text show ?thesis
      by (simp only:)
  qed
  from all_lines two_lines shown show ?thesis
    by (simp add: mapGet_def)
qed

text \<open>
  Claim C5, amended to a positive integer \<open>maxLines\<close>. For a registered session the call
  returns the last \<open>min maxLines total\<close> lines of the buffer in their order, the total,
  the number shown, and the note on truncation exactly when the total exceeds
  \<open>maxLines\<close>; it leaves the registry as it is. With the buffer \<open>a, b, c\<close> and
  \<open>maxLines = 2\<close> the text shows \<open>b\<close> and \<open>c\<close>, total 3, showing 2.
\<close>

theorem get_returns_tail:
  assumes "mapGet reg sid = Some session" and "0 < maxLines"
  shows "executeGetLogs toString sid (Some (of_int maxLines)) reg =
           \<lparr>result = Inr (getLogsReport sid session
                (drop (length (logBuffer session) - nat maxLines) (logBuffer session))
                (length (logBuffer session)) @
              (if int (length (logBuffer session)) > maxLines
               then truncationText toString (length (logBuffer session)) (of_int maxLines)
               else [])),
            sessions = reg, spawned = []\<rparr>
       \<and> length (drop (length (logBuffer session) - nat maxLines) (logBuffer session)) =
           min (nat maxLines) (length (logBuffer session))"
proof -
  from assms(2) have kept: "effectiveMaxLines (Some (of_int maxLines)) = of_int maxLines"
    by (simp add: effectiveMaxLines_def)
  have exceeds: "(of_int maxLines < (of_nat (length (logBuffer session)) :: rat)) =
      (maxLines < int (length (logBuffer session)))"
  proof -
    have "(of_nat (length (logBuffer session)) :: rat) =
        of_int (int (length (logBuffer session)))"
      by simp
    then show ?thesis
      by (simp only: of_int_less_iff)
  qed
  from assms(2) have logs: "sliceFrom (- of_int maxLines) (logBuffer session) =
      drop (length (logBuffer session) - nat maxLines) (logBuffer session)"
    by (rule sliceFrom_tail)
  have shown: "getLogsText toString sid session
      (drop (length (logBuffer session) - nat maxLines) (logBuffer session))
      (length (logBuffer session)) (of_int maxLines) =
    getLogsReport sid session
      (drop (length (logBuffer session) - nat maxLines) (logBuffer session))
      (length (logBuffer session)) @
    (if int (length (logBuffer session)) > maxLines
     then truncationText toString (length (logBuffer session)) (of_int maxLines)
     else [])"
    unfolding getLogsText_def exceeds by (rule refl)
  have called: "executeGetLogs toString sid (Some (of_int maxLines)) reg =
      \<lparr>result = Inr (getLogsText toString sid session
         (drop (length (logBuffer session) - nat maxLines) (logBuffer session))
         (length (logBuffer session)) (of_int maxLines)),
       sessions = reg, spawned = []\<rparr>"
    by (simp add: executeGetLogs_def kept assms(1) logs)
  have shorter: "length (drop (length (logBuffer session) - nat maxLines) (logBuffer session)) =
      min (nat maxLines) (length (logBuffer session))"
    by simp
  from called shown shorter show ?thesis
    by (simp only:)
qed

theorem get_returns_tail_witness:
  "executeGetLogs exampleToString (js ''s1'') (Some 2)
     [(js ''s1'', exampleSession [js ''a'', js ''b'', js ''c''])] =
     \<lparr>result = Inr (js ''=== ANDROID Logs for Session s1 ===\<newline>Status: Streaming\<newline>Device: default\<newline>Total logs captured: 3\<newline>Showing last 2 lines:\<newline>\<newline>b\<newline>c\<newline>\<newline>\<newline>(Showing 2 of 3 total lines. Increase maxLines to see more.)''),
      sessions = [(js ''s1'', exampleSession [js ''a'', js ''b'', js ''c''])], spawned = []\<rparr>"
proof -
  have present: "mapGet [(js ''s1'', exampleSession [js ''a'', js ''b'', js ''c''])] (js ''s1'') =
      Some (exampleSession [js ''a'', js ''b'', js ''c''])"
    by (simp add: mapGet_def)
  have positive: "0 < (2 :: int)"
    by simp
  have printed: "numberText exampleToString 2 = js ''2''"
    using numberText_small [of 2 exampleToString]
    by (simp add: showInt_def showNat_digit js_def)
  show ?thesis
    using get_returns_tail [OF present positive, of exampleToString]
    by (simp add: exampleSession_def getLogsReport_def truncationText_def printed statusText_def
        showNat_digit newline_def js_def truthy_def)
qed

section \<open>The iOS command\<close>

text \<open>
  Claim C6 as the specification states it fails at the empty device id: it has no hyphen
  and is not longer than 25, yet what is spawned is \<open>idevicesyslog\<close> with no arguments,
  not \<open>idevicesyslog -u <deviceId>\<close>, because the empty string is falsy.
\<close>

theorem empty_device_id_is_not_passed:
  "hyphen \<notin> set ([] :: jsstring)
   \<and> \<not> length ([] :: jsstring) > 25
   \<and> iosSpawn (Some []) = Spawn (js ''idevicesyslog'') [] False
   \<and> iosSpawn (Some []) \<noteq> Spawn (js ''idevicesyslog'') [js ''-u'', []] False
   \<and> iosCommand (Some []) = js ''idevicesyslog''
   \<and> iosCommand (Some []) \<noteq> js ''idevicesyslog -u '' @ []
   \<and> spawned (executeStartLogBroadcast (js ''s1'') Ios None (Some []) (exampleEnv [] None) []) =
       [Spawn (js ''idevicesyslog'') [] False]"
  by (simp add: spawned_executeStartLogBroadcast streamingSession_def mapGet_def
      resolveDevice_def exampleEnv_def iosSpawn_def iosCommand_def isSimulator_def truthy_def
      js_def)

text \<open>
  Claim C6, amended. For a device id that is not empty, \<open>startIosLogs\<close> spawns
  \<open>xcrun simctl spawn <deviceId> log stream --level debug\<close> when the id has a hyphen
  or more than 25 code units, and \<open>idevicesyslog -u <deviceId>\<close> otherwise; a start call
  for iOS that provides this id and gets past the guard spawns exactly that.
\<close>

theorem ios_device_classification:
  assumes "d \<noteq> []"
  shows "iosSpawn (Some d) =
           (if hyphen \<in> set d \<or> length d > 25 then
              Spawn (js ''xcrun'')
                [js ''simctl'', js ''spawn'', d, js ''log'', js ''stream'', js ''--level'', js ''debug'']
                False
            else Spawn (js ''idevicesyslog'') [js ''-u'', d] False)
       \<and> iosCommand (Some d) =
           (if hyphen \<in> set d \<or> length d > 25 then
              js ''xcrun simctl spawn '' @ d @ js '' log stream --level debug''
            else js ''idevicesyslog -u '' @ d)
       \<and> (streamingSession reg sid = None \<longrightarrow>
            spawned (executeStartLogBroadcast sid Ios serverUrlArg (Some d) env reg) =
              [iosSpawn (Some d)])"
proof -
  from assms have provided: "resolveDevice (Some d) (axiosGet env) = Some d"
    by (simp add: resolveDevice_def truthy_def)
  have started: "spawned (executeStartLogBroadcast sid Ios serverUrlArg (Some d) env reg) =
      [iosSpawn (Some d)]"
    if "streamingSession reg sid = None"
    using that by (simp add: spawned_executeStartLogBroadcast provided)
  from assms started show ?thesis
    by (simp add: iosSpawn_def iosCommand_def isSimulator_def truthy_def)
qed

theorem ios_device_classification_witness:
  "js ''00008030-001C2D'' \<noteq> []
   \<and> iosSpawn (Some (js ''00008030-001C2D'')) =
       Spawn (js ''xcrun'')
         [js ''simctl'', js ''spawn'', js ''00008030-001C2D'', js ''log'', js ''stream'',
          js ''--level'', js ''debug''] False
   \<and> iosCommand (Some (js ''00008030-001C2D'')) =
       js ''xcrun simctl spawn 00008030-001C2D log stream --level debug''
   \<and> js ''a1b2c3d4e5f6'' \<noteq> []
   \<and> iosSpawn (Some (js ''a1b2c3d4e5f6'')) =
       Spawn (js ''idevicesyslog'') [js ''-u'', js ''a1b2c3d4e5f6''] False
   \<and> iosCommand (Some (js ''a1b2c3d4e5f6'')) = js ''idevicesyslog -u a1b2c3d4e5f6''
   \<and> spawned (executeStartLogBroadcast (js ''s1'') Ios None (Some (js ''a1b2c3d4e5f6''))
        (exampleEnv [] None) []) =
       [Spawn (js ''idevicesyslog'') [js ''-u'', js ''a1b2c3d4e5f6''] False]"
proof -
  have sim: "js ''00008030-001C2D'' \<noteq> []"
    by (simp add: js_def)
  have dev: "js ''a1b2c3d4e5f6'' \<noteq> []"
    by (simp add: js_def)
  have idle: "streamingSession [] (js ''s1'') = None"
    by (simp add: streamingSession_def mapGet_def)
  show ?thesis
    using ios_device_classification [OF sim, of "[]" "js ''s1''" None "exampleEnv [] None"]
      ios_device_classification [OF dev, of "[]" "js ''s1''" None "exampleEnv [] None"] idle
    by (simp add: js_def hyphen_def)
qed

section \<open>Unknown sessions\<close>

text \<open>
  Claim C7. For an id the registry does not hold, get, clear and stop each return their
  \<open>No active log session found\<close> text, throw nothing, and leave the registry as it is.
\<close>

theorem unknown_session_not_found:
  assumes "mapGet reg sid = None"
  shows "executeGetLogs toString sid maxLinesArg reg =
           \<lparr>result = Inr (getNotFoundText sid), sessions = reg, spawned = []\<rparr>
       \<and> executeClearLogBuffer sid reg =
           \<lparr>result = Inr (notFoundText sid), sessions = reg, spawned = []\<rparr>
       \<and> executeStopLogBroadcast sid kill reg =
           \<lparr>result = Inr (notFoundText sid), sessions = reg, spawned = []\<rparr>"
  using assms
  by (simp add: executeGetLogs_def executeClearLogBuffer_def executeStopLogBroadcast_def)

theorem unknown_session_not_found_witness:
  "mapGet [(js ''s1'', exampleSession [js ''a''])] (js ''unknown'') = None
   \<and> result (executeGetLogs exampleToString (js ''unknown'') None
        [(js ''s1'', exampleSession [js ''a''])]) =
       Inr (js ''No active log session found for unknown. Use 'start_log_broadcast' first.'')
   \<and> result (executeClearLogBuffer (js ''unknown'') [(js ''s1'', exampleSession [js ''a''])]) =
       Inr (js ''No active log session found for unknown'')
   \<and> result (executeStopLogBroadcast (js ''unknown'') (\<lambda>p. Delivered)
         [(js ''s1'', exampleSession [js ''a''])]) =
       Inr (js ''No active log session found for unknown'')
   \<and> sessions (executeStopLogBroadcast (js ''unknown'') (\<lambda>p. Delivered)
         [(js ''s1'', exampleSession [js ''a''])]) = [(js ''s1'', exampleSession [js ''a''])]"
proof -
  have absent: "mapGet [(js ''s1'', exampleSession [js ''a''])] (js ''unknown'') = None"
    by (simp add: mapGet_def js_def)
  show ?thesis
    using absent
      unknown_session_not_found [OF absent, of exampleToString None "\<lambda>p. Delivered"]
    by (simp add: getNotFoundText_def notFoundText_def js_def)
qed

section \<open>Clearing, the default of maxLines, and the booted simulator\<close>

text \<open>
  Claim C8. Clearing a registered session returns the number of lines its buffer held
  and stores the session with the empty buffer and every other field as before; the
  other sessions and the order of the registry are unchanged, nothing is spawned, and a
  following get reports a total of 0 and shows no line.
\<close>

theorem clear_empties_buffer_only:
  assumes "mapGet reg sid = Some session"
  shows "result (executeClearLogBuffer sid reg) =
           Inr (clearedText (length (logBuffer session)) sid)
       \<and> mapGet (sessions (executeClearLogBuffer sid reg)) sid =
           Some (session\<lparr>logBuffer := []\<rparr>)
       \<and> (\<forall>other. other \<noteq> sid \<longrightarrow>
             mapGet (sessions (executeClearLogBuffer sid reg)) other = mapGet reg other)
       \<and> mapKeys (sessions (executeClearLogBuffer sid reg)) = mapKeys reg
       \<and> spawned (executeClearLogBuffer sid reg) = []
       \<and> result (executeGetLogs toString sid maxLinesArg
             (sessions (executeClearLogBuffer sid reg))) =
           Inr (getLogsReport sid (session\<lparr>logBuffer := []\<rparr>) [] 0 @
                (if 0 > effectiveMaxLines maxLinesArg
                 then truncationText toString 0 (effectiveMaxLines maxLinesArg) else []))"
proof -
  let ?out = "executeClearLogBuffer sid reg"
  from assms have out: "?out =
      \<lparr>result = Inr (clearedText (length (logBuffer session)) sid),
       sessions = mapSet sid (session\<lparr>logBuffer := []\<rparr>) reg, spawned = []\<rparr>"
    by (simp add: executeClearLogBuffer_def)
  have stored: "mapGet (sessions ?out) sid = Some (session\<lparr>logBuffer := []\<rparr>)"
    by (simp add: out mapGet_mapSet_same)
  have others: "\<forall>other. other \<noteq> sid \<longrightarrow> mapGet (sessions ?out) other = mapGet reg other"
    by (simp add: out mapGet_mapSet_other)
  have keys: "mapKeys (sessions ?out) = mapKeys reg"
    using assms by (simp add: out mapKeys_mapSet mapGet_Some_key)
  have get: "result (executeGetLogs toString sid maxLinesArg (sessions ?out)) =
      Inr (getLogsReport sid (session\<lparr>logBuffer := []\<rparr>) [] 0 @
           (if 0 > effectiveMaxLines maxLinesArg
            then truncationText toString 0 (effectiveMaxLines maxLinesArg) else []))"
    using stored by (simp add: executeGetLogs_def getLogsText_def sliceFrom_def)
  from stored others keys get show ?thesis
    by (simp add: out)
qed

theorem clear_empties_buffer_only_witness:
  "result (executeClearLogBuffer (js ''s1'')
      [(js ''s1'', exampleSession [js ''1'', js ''2'', js ''3'', js ''4'', js ''5''])]) =
     Inr (js ''Cleared 5 log lines from buffer for session s1. Log streaming continues.'')
   \<and> sessions (executeClearLogBuffer (js ''s1'')
      [(js ''s1'', exampleSession [js ''1'', js ''2'', js ''3'', js ''4'', js ''5''])]) =
     [(js ''s1'', exampleSession [])]
   \<and> result (executeGetLogs exampleToString (js ''s1'') None
        (sessions (executeClearLogBuffer (js ''s1'')
      [(js ''s1'', exampleSession [js ''1'', js ''2'', js ''3'', js ''4'', js ''5''])]))) =
     Inr (js ''=== ANDROID Logs for Session s1 ===\<newline>Status: Streaming\<newline>Device: default\<newline>Total logs captured: 0\<newline>Showing last 0 lines:\<newline>\<newline>\<newline>\<newline>'')"
proof -
  let ?reg = "[(js ''s1'', exampleSession [js ''1'', js ''2'', js ''3'', js ''4'', js ''5''])]"
  have present: "mapGet ?reg (js ''s1'') =
      Some (exampleSession [js ''1'', js ''2'', js ''3'', js ''4'', js ''5''])"
    by (simp add: mapGet_def)
  have reg': "sessions (executeClearLogBuffer (js ''s1'') ?reg) = [(js ''s1'', exampleSession [])]"
    unfolding executeClearLogBuffer_def present by (simp add: exampleSession_def)
  show ?thesis
    using clear_empties_buffer_only [OF present, of exampleToString None] reg'
    by (simp add: exampleSession_def clearedText_def getLogsReport_def statusText_def
        effectiveMaxLines_def showNat_digit js_def truthy_def)
qed

text \<open>
  Claim C9. A get with \<open>maxLines = 0\<close> has the outcome of a get without \<open>maxLines\<close>,
  which is the outcome of a get with \<open>maxLines = 100\<close>: for a registered session it
  returns the last 100 lines of the buffer (all of them when there are fewer), not none.
\<close>

theorem get_zero_is_default:
  "executeGetLogs toString sid (Some 0) reg = executeGetLogs toString sid None reg
   \<and> executeGetLogs toString sid (Some 0) reg = executeGetLogs toString sid (Some 100) reg
   \<and> (\<forall>session. mapGet reg sid = Some session \<longrightarrow>
         result (executeGetLogs toString sid (Some 0) reg) =
           Inr (getLogsText toString sid session
                  (drop (length (logBuffer session) - 100) (logBuffer session))
                  (length (logBuffer session)) 100))"
proof -
  have zero: "effectiveMaxLines (Some 0) = 100"
    and missing: "effectiveMaxLines None = 100"
    and hundred: "effectiveMaxLines (Some 100) = 100"
    by (simp_all add: effectiveMaxLines_def)
  have same: "executeGetLogs toString sid (Some 0) reg = executeGetLogs toString sid None reg"
    "executeGetLogs toString sid (Some 0) reg = executeGetLogs toString sid (Some 100) reg"
    by (simp_all add: executeGetLogs_def zero missing hundred)
  have tail: "result (executeGetLogs toString sid (Some 0) reg) =
      Inr (getLogsText toString sid session
             (drop (length (logBuffer session) - 100) (logBuffer session))
             (length (logBuffer session)) 100)"
    if "mapGet reg sid = Some session" for session
    using that by (simp add: executeGetLogs_def zero sliceFrom_hundred)
  from same tail show ?thesis
    by blast
qed

theorem get_zero_is_default_witness:
  "mapGet [(js ''s1'', exampleSession [js ''a'', js ''b'', js ''c''])] (js ''s1'') =
     Some (exampleSession [js ''a'', js ''b'', js ''c''])
   \<and> result (executeGetLogs exampleToString (js ''s1'') (Some 0)
        [(js ''s1'', exampleSession [js ''a'', js ''b'', js ''c''])]) =
     Inr (js ''=== ANDROID Logs for Session s1 ===\<newline>Status: Streaming\<newline>Device: default\<newline>Total logs captured: 3\<newline>Showing last 3 lines:\<newline>\<newline>a\<newline>b\<newline>c\<newline>\<newline>'')"
proof -
  have present: "mapGet [(js ''s1'', exampleSession [js ''a'', js ''b'', js ''c''])] (js ''s1'') =
      Some (exampleSession [js ''a'', js ''b'', js ''c''])"
    by (simp add: mapGet_def)
  from get_zero_is_default [of exampleToString "js ''s1''"
      "[(js ''s1'', exampleSession [js ''a'', js ''b'', js ''c''])]"]
  have "result (executeGetLogs exampleToString (js ''s1'') (Some 0)
          [(js ''s1'', exampleSession [js ''a'', js ''b'', js ''c''])]) =
        Inr (getLogsText exampleToString (js ''s1'') (exampleSession [js ''a'', js ''b'', js ''c''])
               (drop (length (logBuffer (exampleSession [js ''a'', js ''b'', js ''c''])) - 100)
                  (logBuffer (exampleSession [js ''a'', js ''b'', js ''c''])))
               (length (logBuffer (exampleSession [js ''a'', js ''b'', js ''c'']))) 100)"
    using present by blast
  then show ?thesis
    using present
    by (simp add: exampleSession_def getLogsText_def getLogsReport_def statusText_def
        showNat_digit newline_def js_def truthy_def)
qed

text \<open>
  Claim C10. When \<open>startIosLogs\<close> gets no device id, the device is not classified as a
  simulator and the call spawns \<open>idevicesyslog\<close> with no arguments; so does a start call
  for iOS that gets past the guard and has no truthy device id after the lookup. For no
  device id at all, given or not, is \<open>xcrun simctl spawn booted log stream --level debug\<close>
  the command, and no start call spawns it: the branch of the source that would is
  never taken.
\<close>

theorem ios_without_device_uses_idevicesyslog:
  "\<not> isSimulator None
   \<and> iosSpawn None = Spawn (js ''idevicesyslog'') [] False
   \<and> iosCommand None = js ''idevicesyslog''
   \<and> spawned (startIosLogs sid url None buf env reg) = [Spawn (js ''idevicesyslog'') [] False]
   \<and> (streamingSession reg sid = None
        \<and> \<not> truthyOpt (resolveDevice providedDeviceId (axiosGet env)) \<longrightarrow>
        spawned (executeStartLogBroadcast sid Ios serverUrlArg providedDeviceId env reg) =
          [Spawn (js ''idevicesyslog'') [] False])
   \<and> (\<forall>device.
         iosSpawn device \<noteq>
           Spawn (js ''xcrun'')
             [js ''simctl'', js ''spawn'', js ''booted'', js ''log'', js ''stream'', js ''--level'',
              js ''debug''] False
         \<and> iosCommand device \<noteq> js ''xcrun simctl spawn booted log stream --level debug'')
   \<and> Spawn (js ''xcrun'')
         [js ''simctl'', js ''spawn'', js ''booted'', js ''log'', js ''stream'', js ''--level'',
          js ''debug''] False
       \<notin> set (spawned (executeStartLogBroadcast sid plat serverUrlArg providedDeviceId env reg))"
proof -
  have absent: "\<not> isSimulator None"
    by (simp add: isSimulator_def)
  have request: "iosSpawn None = Spawn (js ''idevicesyslog'') [] False"
    by (simp add: iosSpawn_falsy)
  have command: "iosCommand None = js ''idevicesyslog''"
    by (simp add: iosCommand_def absent)
  have launcher: "spawned (startIosLogs sid url None buf env reg) =
      [Spawn (js ''idevicesyslog'') [] False]"
    by (simp add: spawned_startIosLogs request)
  have tool: "spawned (executeStartLogBroadcast sid Ios serverUrlArg providedDeviceId env reg) =
      [Spawn (js ''idevicesyslog'') [] False]"
    if "streamingSession reg sid = None"
      and "\<not> truthyOpt (resolveDevice providedDeviceId (axiosGet env))"
    using that by (simp add: spawned_executeStartLogBroadcast iosSpawn_falsy)
  have never: "Spawn (js ''xcrun'')
      [js ''simctl'', js ''spawn'', js ''booted'', js ''log'', js ''stream'', js ''--level'',
       js ''debug''] False
    \<notin> set (spawned (executeStartLogBroadcast sid plat serverUrlArg providedDeviceId env reg))"
    using iosSpawn_not_booted [of "resolveDevice providedDeviceId (axiosGet env)"]
    by (cases plat; cases "streamingSession reg sid")
      (simp_all add: spawned_executeStartLogBroadcast)
  from absent request command launcher tool never iosSpawn_not_booted iosCommand_not_booted
  show ?thesis
    by blast
qed

theorem ios_without_device_uses_idevicesyslog_witness:
  "streamingSession [] (js ''s1'') = None
   \<and> \<not> truthyOpt (resolveDevice None (axiosGet (exampleEnv [] None)))
   \<and> spawned (executeStartLogBroadcast (js ''s1'') Ios None None (exampleEnv [] None) []) =
       [Spawn (js ''idevicesyslog'') [] False]
   \<and> result (executeStartLogBroadcast (js ''s1'') Ios None None (exampleEnv [] None) []) =
       Inr (checkMark @
            js '' Started iOS log streaming for session s1\<newline>Device: default device\<newline>Type: iOS Device (idevicesyslog)\<newline>Command: idevicesyslog'' @
            captureHint)"
proof -
  have idle: "streamingSession [] (js ''s1'') = None"
    by (simp add: streamingSession_def mapGet_def)
  have unresolved: "\<not> truthyOpt (resolveDevice None (axiosGet (exampleEnv [] None)))"
    by (simp add: resolveDevice_def exampleEnv_def)
  have started: "result (executeStartLogBroadcast (js ''s1'') Ios None None (exampleEnv [] None) []) =
      Inr (checkMark @
           js '' Started iOS log streaming for session s1\<newline>Device: default device\<newline>Type: iOS Device (idevicesyslog)\<newline>Command: idevicesyslog'' @
           captureHint)"
    by (simp add: executeStartLogBroadcast_def streamingSession_def launch_def
        startIosLogs_def settle_def resolveDevice_def exampleEnv_def mapGet_def
        iosStartedText_def iosToolName_def iosCommand_def isSimulator_def js_def)
  from ios_without_device_uses_idevicesyslog
    [where reg = "[]" and sid = "js ''s1''" and providedDeviceId = None
      and env = "exampleEnv [] None" and serverUrlArg = None and plat = Ios
      and url = "[]" and buf = "[]"]
    idle unresolved started
  show ?thesis
    by simp
qed

end
